theory Spec2Isabelle
  imports
    Main
    "HOL-Library.Finite_Map"
    "HOL-Library.List_Lexorder"
    "HOL-Library.Word"
begin

section \<open>Python values\<close>

text \<open>
  A Python \<open>str\<close> is a sequence of Unicode code points. It is modelled as a list of
  code points, so that \<open>len\<close>, slicing, \<open>strip\<close> and the comparison used by
  \<open>sorted\<close> (lexicographic on code points, the order of \<open>HOL-Library.List_Lexorder\<close>)
  are those of Python. \<open>py\<close> writes an ASCII literal.
\<close>

type_synonym pystr = "nat list"

definition py :: "string \<Rightarrow> pystr" where
  "py s = map of_char s"

text \<open>
  The code points that \<open>str.strip()\<close> removes (those for which \<open>str.isspace\<close> holds):
  U+0009..U+000D, U+001C..U+0020, U+0085, U+00A0, U+1680, U+2000..U+200A, U+2028, U+2029,
  U+202F, U+205F, U+3000.
\<close>

definition isspace :: "nat \<Rightarrow> bool" where
  "isspace c \<longleftrightarrow>
     (9 \<le> c \<and> c \<le> 13) \<or> (28 \<le> c \<and> c \<le> 32) \<or> c = 133 \<or> c = 160 \<or> c = 5760 \<or>
     (8192 \<le> c \<and> c \<le> 8202) \<or> c = 8232 \<or> c = 8233 \<or> c = 8239 \<or> c = 8287 \<or> c = 12288"

definition strip :: "pystr \<Rightarrow> pystr" where
  "strip s = rev (dropWhile isspace (rev (dropWhile isspace s)))"

definition startswith :: "pystr \<Rightarrow> pystr \<Rightarrow> bool" where
  "startswith s p \<longleftrightarrow> take (length p) s = p"

definition endswith :: "pystr \<Rightarrow> pystr \<Rightarrow> bool" where
  "endswith s p \<longleftrightarrow> length p \<le> length s \<and> drop (length s - length p) s = p"

text \<open>
  The line boundaries of \<open>str.splitlines()\<close>: \<open>\n\<close>, \<open>\r\<close>, \<open>\r\n\<close>, \<open>\v\<close>, \<open>\f\<close>,
  U+001C, U+001D, U+001E, U+0085, U+2028, U+2029. A line is emitted at every boundary;
  what follows the last boundary is emitted only when it is not empty.
\<close>

definition is_linebreak :: "nat \<Rightarrow> bool" where
  "is_linebreak c \<longleftrightarrow>
     c = 10 \<or> c = 11 \<or> c = 12 \<or> c = 13 \<or> c = 28 \<or> c = 29 \<or> c = 30 \<or> c = 133 \<or>
     c = 8232 \<or> c = 8233"

fun splitlines_from :: "pystr \<Rightarrow> pystr \<Rightarrow> pystr list" where
  "splitlines_from line [] = (if line = [] then [] else [line])"
| "splitlines_from line [c] =
     (if is_linebreak c then [line] else [line @ [c]])"
| "splitlines_from line (c # d # cs) =
     (if c = 13 \<and> d = 10 then line # splitlines_from [] cs
      else if is_linebreak c then line # splitlines_from [] (d # cs)
      else splitlines_from (line @ [c]) (d # cs))"

definition splitlines :: "pystr \<Rightarrow> pystr list" where
  "splitlines s = splitlines_from [] s"

text \<open>\<open>sep.join(xs)\<close>.\<close>

fun join :: "pystr \<Rightarrow> pystr list \<Rightarrow> pystr" where
  "join sep [] = []"
| "join sep [x] = x"
| "join sep (x # y # ys) = x @ sep @ join sep (y # ys)"

text \<open>
  The values \<open>json.loads\<close> returns: \<open>None\<close>, \<open>bool\<close>, \<open>int\<close>, \<open>float\<close> (an IEEE double,
  kept as its 64 bits), \<open>str\<close>, \<open>list\<close> and \<open>dict\<close>. A \<open>dict\<close> has unique keys; the
  program only ever iterates over one through \<open>sorted(d.keys())\<close>, so a finite map with
  its keys read in sorted order is the dictionary as the program sees it.
\<close>

datatype json =
    JNull
  | JBool bool
  | JInt int
  | JFloat "64 word"
  | JStr pystr
  | JArr "json list"
  | JObj "(pystr, json) fmap"

type_synonym qcm = "(pystr, json) fmap"

text \<open>
  Exceptions. \<open>Exception\<close> stands for any other subclass of Python's \<open>Exception\<close>, with
  its message. \<open>RerunException\<close> is what \<open>st.rerun()\<close> raises to stop the script.
  \<open>Outside_model\<close> is not a Python exception: it marks the one place where this
  development does not follow Python (see \<open>sorted_json\<close>).
\<close>

datatype exn =
    JSONDecodeError pystr
  | TypeError
  | KeyError pystr
  | AttributeError
  | UnboundLocalError
  | UnicodeDecodeError
  | UnicodeEncodeError
  | Exception pystr
  | RerunException
  | Outside_model

text \<open>
  \<open>sorted(v)\<close> for a JSON value \<open>v\<close>. \<open>None\<close>, booleans and numbers are not iterable
  (\<open>TypeError\<close>); a \<open>str\<close> is iterated character by character and a \<open>dict\<close> key by key;
  a list of strings is sorted. Sorting a list with an element that is not a string
  depends on Python's comparison across types and on the order in which the sort makes
  its comparisons; that case is left out and yields \<open>Outside_model\<close>.
\<close>

fun strs_of :: "json list \<Rightarrow> pystr list option" where
  "strs_of [] = Some []"
| "strs_of (JStr s # xs) = map_option (Cons s) (strs_of xs)"
| "strs_of (_ # xs) = None"

fun sorted_json :: "json \<Rightarrow> exn + json list" where
  "sorted_json (JStr s) = Inr (map (\<lambda>c. JStr [c]) (sort s))"
| "sorted_json (JObj d) = Inr (map JStr (sorted_list_of_fset (fmdom d)))"
| "sorted_json (JArr xs) =
     (case strs_of xs of
        Some ss \<Rightarrow> Inr (map JStr (sort ss))
      | None \<Rightarrow> Inl Outside_model)"
| "sorted_json _ = Inl TypeError"

text \<open>Item assignment \<open>v[key] = x\<close> with a string key works on a \<open>dict\<close> only.\<close>

fun is_dict :: "json \<Rightarrow> bool" where
  "is_dict (JObj d) = True"
| "is_dict _ = False"

section \<open>What the page shows\<close>

text \<open>
  The per-option status of the correction (lines 231 to 250): \<open>CorrectChosen\<close> is
  "Correcte (Votre choix)", \<open>CorrectMissed\<close> "Correcte (Manquee)", \<open>IncorrectChosen\<close>
  "Incorrecte (Votre choix)", \<open>IncorrectAvoided\<close> "Incorrecte (Non selectionnee)", and
  \<open>Unset\<close> is the empty \<open>status_text\<close> the variables are initialised with.
\<close>

datatype verdict = CorrectChosen | CorrectMissed | IncorrectChosen | IncorrectAvoided | Unset

text \<open>
  A Streamlit call sends its text to the browser encoded in UTF-8 and raises
  \<open>UnicodeEncodeError\<close> when the text holds a lone surrogate (U+D800 to U+DFFF), which
  \<open>json.loads\<close> yields from an escape such as \<open>\ud800\<close>. A \<open>str\<close> is interpolated
  into an f-string as it is; any other JSON value is interpolated through \<open>str()\<close>,
  whose result holds no surrogate (inside a list or a dict, \<open>repr\<close> escapes it).
  \<open>is_text\<close> is a \<open>str\<close> that can be shown, and \<open>texts_ok\<close> a dictionary whose keys
  and values all are.
\<close>

definition is_surrogate :: "nat \<Rightarrow> bool" where
  "is_surrogate c \<longleftrightarrow> 55296 \<le> c \<and> c \<le> 57343"

definition utf8_ok :: "pystr \<Rightarrow> bool" where
  "utf8_ok s \<longleftrightarrow> list_all (\<lambda>c. \<not> is_surrogate c) s"

fun text_ok :: "json \<Rightarrow> bool" where
  "text_ok (JStr s) = utf8_ok s"
| "text_ok _ = True"

fun is_text :: "json \<Rightarrow> bool" where
  "is_text (JStr s) = utf8_ok s"
| "is_text _ = False"

definition texts_ok :: "(pystr, json) fmap \<Rightarrow> bool" where
  "texts_ok d \<longleftrightarrow>
     list_all (\<lambda>(key, value). utf8_ok key \<and> is_text value) (sorted_list_of_fmap d)"

text \<open>
  The Streamlit calls that depend on the data, each with the values it interpolates.
  The fixed page chrome (title, separators, headers, spinners) is left out.
\<close>

datatype ui =
    Warning_no_text
  | Error_no_lines
  | Success_lines nat
  | Error_configuration exn
  | Warning_no_course_lines
  | Warning_no_api_key
  | Error_json_decode pystr pystr
  | Error_generation exn
  | Info_fragment json
  | Subheader_question json
  | Checkbox pystr json bool
  | Success_bravo
  | Error_incorrect
  | Option_block pystr verdict json json

section \<open>generate_qcm_with_gemini\<close>

text \<open>
  The reply of \<open>gemini_model.generate_content(prompt)\<close> followed by \<open>response.text\<close>:
  the call raises, or the \<open>text\<close> accessor raises, or there is a text. The prompt is a
  fixed template around the fragment, so the model is taken as a function of the fragment.
\<close>

datatype reply = Call_raises exn | Text_raises exn | Text pystr

definition fence_open :: pystr where
  "fence_open = py ''```json''"

definition fence_close :: pystr where
  "fence_close = py ''```''"

text \<open>Lines 67 to 71: the string handed to \<open>json.loads\<close>.\<close>

definition qcm_json_string :: "pystr \<Rightarrow> pystr" where
  "qcm_json_string text =
     (let s = strip text;
          s = (if startswith s fence_open then strip (drop (length fence_open) s) else s);
          s = (if endswith s fence_close
               then strip (take (length s - length fence_close) s) else s)
      in s)"

definition fragment_source :: pystr where
  "fragment_source = py ''fragment_source''"

text \<open>
  Lines 59 to 82. \<open>loads\<close> is \<open>json.loads\<close>. The result is what the function shows
  with \<open>st.error\<close> and what it returns, or \<open>Inl\<close> the exception that leaves the function.
  An exception raised inside the \<open>try\<close> is matched against \<open>json.JSONDecodeError\<close> first;
  that handler reads \<open>response.text\<close> again, which fails when the exception came from the
  model call (\<open>response\<close> is not bound) or from the accessor itself. Item assignment on a
  value that is not a \<open>dict\<close> raises \<open>TypeError\<close>. The texts that \<open>st.error\<close> shows
  here are the response text, decoded by the client library, and exception messages;
  they hold no lone surrogate, so \<open>st.error\<close> does not raise.
\<close>

definition generate_qcm_with_gemini ::
  "(pystr \<Rightarrow> exn + json) \<Rightarrow> pystr \<Rightarrow> (pystr \<Rightarrow> reply) \<Rightarrow> exn + (ui list \<times> qcm option)" where
  "generate_qcm_with_gemini loads fragment gemini_model =
     (case gemini_model fragment of
        Call_raises (JSONDecodeError m) \<Rightarrow> Inl UnboundLocalError
      | Call_raises e \<Rightarrow> Inr ([Error_generation e], None)
      | Text_raises (JSONDecodeError m) \<Rightarrow> Inl (JSONDecodeError m)
      | Text_raises e \<Rightarrow> Inr ([Error_generation e], None)
      | Text text \<Rightarrow>
          (case loads (qcm_json_string text) of
             Inl (JSONDecodeError m) \<Rightarrow> Inr ([Error_json_decode text m], None)
           | Inl e \<Rightarrow> Inr ([Error_generation e], None)
           | Inr (JObj qcm_data) \<Rightarrow>
               Inr ([], Some (fmupd fragment_source (JStr fragment) qcm_data))
           | Inr _ \<Rightarrow> Inr ([Error_generation TypeError], None)))"

section \<open>Session state\<close>

record session_state =
  course_lines :: "pystr list"
  current_qcm :: "qcm option"
  show_correction :: bool
  user_selection :: "pystr list"

text \<open>Lines 85 to 92.\<close>

definition init_state :: session_state where
  "init_state =
     \<lparr>course_lines = [], current_qcm = None, show_correction = False, user_selection = []\<rparr>"

text \<open>
  A stretch of the script: what it showed, the exception that ended it (if one did), and
  the session state it left. The session state is mutated in place, so the writes made
  before an exception stay.
\<close>

type_synonym run = "ui list \<times> exn option \<times> session_state"

definition and_then :: "run \<Rightarrow> (session_state \<Rightarrow> run) \<Rightarrow> run" where
  "and_then r f =
     (case r of
        (out, Some e, st) \<Rightarrow> (out, Some e, st)
      | (out, None, st) \<Rightarrow> (case f st of (out', e', st') \<Rightarrow> (out @ out', e', st')))"

section \<open>Analyser le cours\<close>

text \<open>
  The uploaded file: none, one whose bytes are not UTF-8 (\<open>decode\<close> raises), or one
  with its decoded text.
\<close>

datatype upload = No_file | Undecodable | File pystr

fun course_text_of :: "upload \<Rightarrow> pystr \<Rightarrow> exn + pystr" where
  "course_text_of (File t) text_area = Inr t"
| "course_text_of Undecodable text_area = Inl UnicodeDecodeError"
| "course_text_of No_file text_area = Inr (if text_area \<noteq> [] then text_area else [])"

text \<open>Lines 110 to 130.\<close>

definition analyser_le_cours :: "upload \<Rightarrow> pystr \<Rightarrow> session_state \<Rightarrow> run" where
  "analyser_le_cours file text_area st =
     (case course_text_of file text_area of
        Inl e \<Rightarrow> ([], Some e, st)
      | Inr course_text \<Rightarrow>
          if strip course_text = [] then
            ([Warning_no_text], None, st\<lparr>course_lines := []\<rparr>)
          else
            (let all_lines = splitlines course_text;
                 st = st\<lparr>course_lines := filter (\<lambda>line. strip line \<noteq> []) all_lines\<rparr>
             in if course_lines st = [] then ([Error_no_lines], None, st)
                else ([Success_lines (length (course_lines st))], None,
                      st\<lparr>current_qcm := None, show_correction := False\<rparr>)))"

section \<open>Generer un nouveau QCM\<close>

definition chunk_size :: nat where
  "chunk_size = 100"

text \<open>
  Lines 161 to 168. \<open>randint\<close> is \<open>random.randint\<close>, which returns an integer of the
  inclusive range it is given.
\<close>

definition start_index :: "(nat \<Rightarrow> nat \<Rightarrow> nat) \<Rightarrow> pystr list \<Rightarrow> nat" where
  "start_index randint lines =
     (let num_lines = length lines
      in if num_lines \<le> chunk_size then 0
         else (let max_start_index = num_lines - chunk_size
               in randint 0 max_start_index))"

definition selected_lines :: "(nat \<Rightarrow> nat \<Rightarrow> nat) \<Rightarrow> pystr list \<Rightarrow> pystr list" where
  "selected_lines randint lines =
     take chunk_size (drop (start_index randint lines) lines)"

definition selected_fragment :: "(nat \<Rightarrow> nat \<Rightarrow> nat) \<Rightarrow> pystr list \<Rightarrow> pystr" where
  "selected_fragment randint lines = join [10] (selected_lines randint lines)"

text \<open>Lines 149 to 172.\<close>

definition generer_un_nouveau_qcm ::
  "(pystr \<Rightarrow> exn + json) \<Rightarrow> (pystr \<Rightarrow> reply) \<Rightarrow> (nat \<Rightarrow> nat \<Rightarrow> nat) \<Rightarrow> session_state \<Rightarrow> run" where
  "generer_un_nouveau_qcm loads gemini_model randint st0 =
     (let st = st0\<lparr>show_correction := False, user_selection := []\<rparr>;
          lines = course_lines st;
          num_lines = length lines
      in if num_lines = 0 then
           ([Warning_no_course_lines], None, st\<lparr>current_qcm := None\<rparr>)
         else
           (case generate_qcm_with_gemini loads (selected_fragment randint lines) gemini_model of
              Inl e \<Rightarrow> ([], Some e, st)
            | Inr (out, qcm) \<Rightarrow> (out, None, st\<lparr>current_qcm := qcm\<rparr>)))"

section \<open>Affichage du QCM\<close>

text \<open>\<open>if st.session_state.current_qcm\<close>: a dictionary is true when it is not empty.\<close>

definition truthy :: "qcm option \<Rightarrow> bool" where
  "truthy q = (case q of None \<Rightarrow> False | Some d \<Rightarrow> fmdom d \<noteq> {||})"

text \<open>
  Lines 190 to 195: one checkbox for each option, in sorted key order. The label
  interpolates the key and the value. \<open>checkbox\<close> is the state of the checkbox
  widgets, by option key.
\<close>

fun checkboxes ::
  "(pystr \<Rightarrow> bool) \<Rightarrow> session_state \<Rightarrow> (pystr \<times> json) list \<Rightarrow>
   ui list \<times> exn option \<times> pystr list" where
  "checkboxes checkbox st [] = ([], None, [])"
| "checkboxes checkbox st ((key, value) # rest) =
     (if utf8_ok key \<and> text_ok value then
        (let checked = (if show_correction st then key \<in> set (user_selection st) else False)
         in case checkboxes checkbox st rest of
              (out, x, user_choices) \<Rightarrow>
                (Checkbox key value checked # out, x,
                 if checkbox key then key # user_choices else user_choices))
      else ([], Some UnicodeEncodeError, []))"

text \<open>
  Lines 179 to 195: what is shown, the exception that stopped the display (a missing
  key, or a text that cannot be encoded), and \<open>user_choices\<close>.
\<close>

definition affichage_du_qcm ::
  "(pystr \<Rightarrow> bool) \<Rightarrow> session_state \<Rightarrow> qcm \<Rightarrow> ui list \<times> exn option \<times> pystr list" where
  "affichage_du_qcm checkbox st qcm =
     (case fmlookup qcm fragment_source of
        None \<Rightarrow> ([], Some (KeyError fragment_source), [])
      | Some fragment \<Rightarrow>
     if \<not> text_ok fragment then ([], Some UnicodeEncodeError, []) else
     (case fmlookup qcm (py ''question'') of
        None \<Rightarrow> ([Info_fragment fragment], Some (KeyError (py ''question'')), [])
      | Some question \<Rightarrow>
     if \<not> text_ok question then ([Info_fragment fragment], Some UnicodeEncodeError, []) else
     (case fmlookup qcm (py ''options'') of
        None \<Rightarrow>
          ([Info_fragment fragment, Subheader_question question],
           Some (KeyError (py ''options'')), [])
      | Some (JObj options) \<Rightarrow>
          (case checkboxes checkbox st (sorted_list_of_fmap options) of
             (out, x, user_choices) \<Rightarrow>
               ([Info_fragment fragment, Subheader_question question] @ out, x, user_choices))
      | Some _ \<Rightarrow>
          ([Info_fragment fragment, Subheader_question question], Some AttributeError, []))))"

text \<open>Lines 197 to 200.\<close>

definition valider_ma_reponse :: "pystr list \<Rightarrow> session_state \<Rightarrow> run" where
  "valider_ma_reponse user_choices st =
     ([], Some RerunException, st\<lparr>user_selection := sort user_choices, show_correction := True\<rparr>)"

section \<open>Affichage de la correction\<close>

text \<open>Lines 227 to 250.\<close>

definition status :: "bool \<Rightarrow> bool \<Rightarrow> verdict" where
  "status is_correct_option user_selected_option =
     (if is_correct_option \<and> user_selected_option then CorrectChosen
      else if is_correct_option \<and> \<not> user_selected_option then CorrectMissed
      else if \<not> is_correct_option \<and> user_selected_option then IncorrectChosen
      else if \<not> is_correct_option \<and> \<not> user_selected_option then IncorrectAvoided
      else Unset)"

definition placeholder :: pystr where
  "placeholder = py ''Pas d'explication fournie.''"

text \<open>
  Lines 218 to 254, over the options in sorted key order. \<open>st.markdown\<close> interpolates
  the key, the value and the explanation.
\<close>

fun correction_loop ::
  "qcm \<Rightarrow> json list \<Rightarrow> pystr list \<Rightarrow> (pystr \<times> json) list \<Rightarrow> ui list \<times> exn option" where
  "correction_loop qcm correct_answers user_answers [] = ([], None)"
| "correction_loop qcm correct_answers user_answers ((key, value) # rest) =
     (case fmlookup qcm (py ''explanations'') of
        None \<Rightarrow> ([], Some (KeyError (py ''explanations'')))
      | Some (JObj explanations) \<Rightarrow>
          (let explanation =
                 (case fmlookup explanations key of Some e \<Rightarrow> e | None \<Rightarrow> JStr placeholder);
               is_correct_option = (JStr key \<in> set correct_answers);
               user_selected_option = (key \<in> set user_answers);
               block = Option_block key (status is_correct_option user_selected_option)
                         value explanation
           in if utf8_ok key \<and> text_ok value \<and> text_ok explanation then
                (case correction_loop qcm correct_answers user_answers rest of
                   (out, err) \<Rightarrow> (block # out, err))
              else ([], Some UnicodeEncodeError))
      | Some _ \<Rightarrow> ([], Some AttributeError))"

text \<open>Lines 204 to 254.\<close>

definition affichage_de_la_correction :: "qcm \<Rightarrow> pystr list \<Rightarrow> ui list \<times> exn option" where
  "affichage_de_la_correction qcm user_answers =
     (case fmlookup qcm (py ''correct_answers'') of
        None \<Rightarrow> ([], Some (KeyError (py ''correct_answers'')))
      | Some listed \<Rightarrow>
     (case sorted_json listed of
        Inl e \<Rightarrow> ([], Some e)
      | Inr correct_answers \<Rightarrow>
     (let overall = (if map JStr user_answers = correct_answers
                     then Success_bravo else Error_incorrect)
      in case fmlookup qcm (py ''options'') of
           None \<Rightarrow> ([overall], Some (KeyError (py ''options'')))
         | Some (JObj options) \<Rightarrow>
             (case correction_loop qcm correct_answers user_answers
                     (sorted_list_of_fmap options) of
                (out, err) \<Rightarrow> (overall # out, err))
         | Some _ \<Rightarrow> ([overall], Some AttributeError))))"

section \<open>One run of the script\<close>

text \<open>
  Streamlit runs the script from the top after each interaction; at most one button
  reports a click in a run. The inputs of a run: the API key field, the outcome of
  configuring the client with it (lines 135 and 136), the upload and text widgets, the
  checkbox widgets, the random source and \<open>json.loads\<close>.
\<close>

datatype click = No_click | Analyser | Generer | Valider

record env =
  api_key :: pystr
  genai_model :: "exn + (pystr \<Rightarrow> reply)"
  uploaded_file :: upload
  course_text_input :: pystr
  checkbox_state :: "pystr \<Rightarrow> bool"
  random_randint :: "nat \<Rightarrow> nat \<Rightarrow> nat"
  json_loads :: "pystr \<Rightarrow> exn + json"

text \<open>Lines 110 to 130.\<close>

definition sidebar :: "env \<Rightarrow> click \<Rightarrow> session_state \<Rightarrow> run" where
  "sidebar e c st =
     (if c = Analyser then analyser_le_cours (uploaded_file e) (course_text_input e) st
      else ([], None, st))"

text \<open>Lines 133 to 141.\<close>

definition configure :: "env \<Rightarrow> ui list \<times> (pystr \<Rightarrow> reply) option" where
  "configure e =
     (if api_key e \<noteq> [] then
        (case genai_model e of
           Inl x \<Rightarrow> ([Error_configuration x], None)
         | Inr m \<Rightarrow> ([], Some m))
      else ([], None))"

text \<open>Lines 133 to 175.\<close>

definition logique_principale :: "env \<Rightarrow> click \<Rightarrow> session_state \<Rightarrow> run" where
  "logique_principale e c st =
     (case configure e of
        (out, gemini_model) \<Rightarrow>
          and_then (out, None, st)
            (\<lambda>st. case gemini_model of
                    Some m \<Rightarrow>
                      if course_lines st \<noteq> [] then
                        (if c = Generer
                         then generer_un_nouveau_qcm (json_loads e) m (random_randint e) st
                         else ([], None, st))
                      else ([], None, st)
                  | None \<Rightarrow>
                      if course_lines st \<noteq> [] \<and> api_key e = []
                      then ([Warning_no_api_key], None, st)
                      else ([], None, st)))"

text \<open>Lines 178 to 200.\<close>

definition formulaire :: "env \<Rightarrow> click \<Rightarrow> session_state \<Rightarrow> run" where
  "formulaire e c st =
     (case current_qcm st of
        None \<Rightarrow> ([], None, st)
      | Some qcm \<Rightarrow>
          if truthy (Some qcm) then
            (case affichage_du_qcm (checkbox_state e) st qcm of
               (out, Some x, user_choices) \<Rightarrow> (out, Some x, st)
             | (out, None, user_choices) \<Rightarrow>
                 if c = Valider
                 then and_then (out, None, st) (valider_ma_reponse user_choices)
                 else (out, None, st))
          else ([], None, st))"

text \<open>Lines 203 to 254.\<close>

definition correction :: "session_state \<Rightarrow> run" where
  "correction st =
     (case current_qcm st of
        None \<Rightarrow> ([], None, st)
      | Some qcm \<Rightarrow>
          if show_correction st \<and> truthy (Some qcm) then
            (case affichage_de_la_correction qcm (user_selection st) of
               (out, err) \<Rightarrow> (out, err, st))
          else ([], None, st))"

definition script_once :: "env \<Rightarrow> click \<Rightarrow> session_state \<Rightarrow> run" where
  "script_once e c st =
     and_then (and_then (and_then (sidebar e c st) (logique_principale e c))
                 (formulaire e c)) correction"

text \<open>
  \<open>st.rerun()\<close> stops the script and runs it again from the top, with the session state
  as it is and no button clicked; what the stopped run had shown is replaced.
\<close>

definition script :: "env \<Rightarrow> click \<Rightarrow> session_state \<Rightarrow> run" where
  "script e c st =
     (case script_once e c st of
        (out, Some RerunException, st') \<Rightarrow> script_once e No_click st'
      | r \<Rightarrow> r)"

section \<open>Reading the correction\<close>

text \<open>
  What the correction shows, read back: the status shown for each option, the option
  keys shown with a given status, and whether the overall message is the success one.
\<close>

fun verdicts :: "ui list \<Rightarrow> (pystr \<times> verdict) list" where
  "verdicts [] = []"
| "verdicts (Option_block key v val explanation # out) = (key, v) # verdicts out"
| "verdicts (_ # out) = verdicts out"

definition graded :: "ui list \<Rightarrow> verdict \<Rightarrow> pystr set" where
  "graded out v = {key. (key, v) \<in> set (verdicts out)}"

definition is_fully_correct :: "ui list \<Rightarrow> bool" where
  "is_fully_correct out \<longleftrightarrow> Success_bravo \<in> set out"

text \<open>The block that one pass of the loop of lines 218 to 254 shows for an option.\<close>

definition block :: "pystr list \<Rightarrow> pystr list \<Rightarrow> (pystr, json) fmap \<Rightarrow> pystr \<times> json \<Rightarrow> ui" where
  "block correct sel explanations kv =
     Option_block (fst kv) (status (fst kv \<in> set correct) (fst kv \<in> set sel)) (snd kv)
       (case fmlookup explanations (fst kv) of Some e \<Rightarrow> e | None \<Rightarrow> JStr placeholder)"

section \<open>Example questions\<close>

text \<open>
  JSON objects as the model can return them, with \<open>fragment_source\<close> attached:
  one whose \<open>correct_answers\<close> names a key that is not an option, one that lists a
  correct key twice, one without \<open>question\<close>, one that follows the schema, and one
  whose explanation of A is the lone surrogate U+D800.
\<close>

definition options_AB :: "(pystr, json) fmap" where
  "options_AB = fmap_of_list [(py ''A'', JStr (py ''un'')), (py ''B'', JStr (py ''deux''))]"

definition qcm_phantom :: qcm where
  "qcm_phantom = fmap_of_list
     [(fragment_source, JStr (py ''cours'')),
      (py ''question'', JStr (py ''Combien ?'')),
      (py ''options'', JObj options_AB),
      (py ''correct_answers'', JArr [JStr (py ''A''), JStr (py ''Z'')]),
      (py ''explanations'', JObj fmempty)]"

definition qcm_repeated :: qcm where
  "qcm_repeated = fmap_of_list
     [(fragment_source, JStr (py ''cours'')),
      (py ''question'', JStr (py ''Combien ?'')),
      (py ''options'', JObj options_AB),
      (py ''correct_answers'', JArr [JStr (py ''A''), JStr (py ''A'')]),
      (py ''explanations'', JObj fmempty)]"

definition qcm_no_question :: qcm where
  "qcm_no_question = fmap_of_list
     [(fragment_source, JStr (py ''cours'')),
      (py ''options'', JObj options_AB),
      (py ''correct_answers'', JArr [JStr (py ''A'')]),
      (py ''explanations'', JObj fmempty)]"

definition qcm_ok :: qcm where
  "qcm_ok = fmap_of_list
     [(fragment_source, JStr (py ''cours'')),
      (py ''question'', JStr (py ''Combien ?'')),
      (py ''options'', JObj options_AB),
      (py ''correct_answers'', JArr [JStr (py ''A'')]),
      (py ''explanations'', JObj (fmap_of_list [(py ''A'', JStr (py ''parce que''))]))]"

definition qcm_surrogate :: qcm where
  "qcm_surrogate = fmap_of_list
     [(fragment_source, JStr (py ''cours'')),
      (py ''question'', JStr (py ''Combien ?'')),
      (py ''options'', JObj options_AB),
      (py ''correct_answers'', JArr [JStr (py ''A'')]),
      (py ''explanations'', JObj (fmap_of_list [(py ''A'', JStr [55296])]))]"

section \<open>Example sessions\<close>

text \<open>
  A session in which a question and its correction are on the page, one in which a
  question is on the page and not yet answered, and the inputs of a run in which the
  box of option A is ticked.
\<close>

definition st_shown :: session_state where
  "st_shown = \<lparr>course_lines = [py ''ligne''], current_qcm = Some qcm_ok,
                show_correction = True, user_selection = [py ''A'']\<rparr>"

definition st_asked :: session_state where
  "st_asked = \<lparr>course_lines = [py ''ligne''], current_qcm = Some qcm_ok,
               show_correction = False, user_selection = []\<rparr>"

definition env_tick_A :: env where
  "env_tick_A =
     \<lparr>api_key = [], genai_model = Inl (Exception []), uploaded_file = No_file,
      course_text_input = [], checkbox_state = (\<lambda>key. key = py ''A''),
      random_randint = (\<lambda>a b. b), json_loads = (\<lambda>s. Inl (JSONDecodeError []))\<rparr>"

text \<open>The session state a stretch of the script leaves.\<close>

definition state_of :: "run \<Rightarrow> session_state" where
  "state_of r = snd (snd r)"

section \<open>Properties of generate_qcm_with_gemini\<close>

lemma dropWhile_append_keep:
  "ys \<noteq> [] \<Longrightarrow> \<not> P (hd ys) \<Longrightarrow> dropWhile P (xs @ ys) = dropWhile P xs @ ys"
  by (induction xs) (auto simp: neq_Nil_conv)

lemma strip_append_keep:
  assumes "ys \<noteq> []" "\<not> isspace (hd ys)" "\<not> isspace (last ys)"
  shows "strip (xs @ ys) = dropWhile isspace xs @ ys"
proof -
  have "dropWhile isspace (rev (dropWhile isspace xs @ ys)) = rev (dropWhile isspace xs @ ys)"
    using assms by (cases ys rule: rev_cases) auto
  then show ?thesis
    using assms by (simp add: strip_def dropWhile_append_keep del: rev_append)
qed

lemma strip_dropWhile: "strip (dropWhile isspace xs) = strip xs"
  by (simp add: strip_def dropWhile_idem)

lemma fence_close_ends:
  "fence_close \<noteq> []" "\<not> isspace (hd fence_close)" "\<not> isspace (last fence_close)"
  "length fence_close = 3"
  by (simp_all add: fence_close_def py_def isspace_def)

lemma qcm_json_string_fenced:
  assumes "strip raw = fence_open @ inner @ fence_close"
  shows "qcm_json_string raw = strip inner"
proof -
  let ?s1 = "dropWhile isspace inner @ fence_close"
  have a: "startswith (strip raw) fence_open"
    by (simp add: assms startswith_def)
  have b: "strip (drop (length fence_open) (strip raw)) = ?s1"
    by (simp add: assms strip_append_keep fence_close_ends)
  have c: "endswith ?s1 fence_close"
    by (simp add: endswith_def)
  have d: "take (length ?s1 - length fence_close) ?s1 = dropWhile isspace inner"
    by simp
  show ?thesis
    unfolding qcm_json_string_def Let_def
    by (simp only: a b c d if_True strip_dropWhile)
qed

text \<open>
  C4. When the text handed to \<open>json.loads\<close> is not valid JSON (\<open>json.loads\<close> raises
  \<open>JSONDecodeError\<close> with message \<open>m\<close>), \<open>generate_qcm_with_gemini\<close> takes the
  \<open>JSONDecodeError\<close> handler: it shows one error that carries the raw response text and
  the parse error, and returns \<open>None\<close>. The model is asked once; nothing is retried.
  The handler of "Generer un nouveau QCM" then stores \<open>None\<close> in \<open>current_qcm\<close>.
\<close>

theorem malformed_response:
  assumes "gemini_model fragment = Text raw"
    and "loads (qcm_json_string raw) = Inl (JSONDecodeError m)"
  shows "generate_qcm_with_gemini loads fragment gemini_model =
           Inr ([Error_json_decode raw m], None) \<and>
         (course_lines st \<noteq> [] \<and> selected_fragment randint (course_lines st) = fragment \<longrightarrow>
            generer_un_nouveau_qcm loads gemini_model randint st =
              ([Error_json_decode raw m], None,
               st\<lparr>show_correction := False, user_selection := [], current_qcm := None\<rparr>))"
  using assms by (simp add: generate_qcm_with_gemini_def generer_un_nouveau_qcm_def Let_def)

theorem malformed_response_witness:
  "generate_qcm_with_gemini (\<lambda>s. Inl (JSONDecodeError (py ''Expecting value'')))
     (py ''ligne'') (\<lambda>f. Text (py ''pas du JSON'')) =
   Inr ([Error_json_decode (py ''pas du JSON'') (py ''Expecting value'')], None) \<and>
   generer_un_nouveau_qcm (\<lambda>s. Inl (JSONDecodeError (py ''Expecting value'')))
     (\<lambda>f. Text (py ''pas du JSON'')) (\<lambda>a b. b) st_asked =
   ([Error_json_decode (py ''pas du JSON'') (py ''Expecting value'')], None,
    st_asked\<lparr>show_correction := False, user_selection := [], current_qcm := None\<rparr>)"
proof -
  have f: "selected_fragment (\<lambda>a b. b) (course_lines st_asked) = py ''ligne''"
    by (simp add: selected_fragment_def selected_lines_def start_index_def chunk_size_def
        st_asked_def)
  have l: "course_lines st_asked \<noteq> []"
    by (simp add: st_asked_def)
  from malformed_response [where gemini_model = "\<lambda>f. Text (py ''pas du JSON'')"
      and fragment = "py ''ligne''" and raw = "py ''pas du JSON''"
      and loads = "\<lambda>s. Inl (JSONDecodeError (py ''Expecting value''))"
      and m = "py ''Expecting value''" and st = st_asked and randint = "\<lambda>a b. b"]
  show ?thesis
    using f l by simp
qed

text \<open>
  C5. When the response, once trimmed, is the opener \<open>```json\<close>, a body, and the closer
  \<open>```\<close>, the string handed to \<open>json.loads\<close> is the trimmed body: exactly that one pair
  of markers is removed, whatever the body contains. When that body parses to a JSON
  object, the object with \<open>fragment_source\<close> attached is returned and nothing is shown.
\<close>

theorem fence_stripped:
  assumes "strip raw = fence_open @ inner @ fence_close"
    and "gemini_model fragment = Text raw"
    and "loads (strip inner) = Inr (JObj qcm_data)"
  shows "qcm_json_string raw = strip inner \<and>
         generate_qcm_with_gemini loads fragment gemini_model =
           Inr ([], Some (fmupd fragment_source (JStr fragment) qcm_data))"
  using assms by (simp add: qcm_json_string_fenced generate_qcm_with_gemini_def)

theorem fence_stripped_witness:
  "qcm_json_string (py '' ```json {} ``` '') = strip (py '' {} '') \<and>
   generate_qcm_with_gemini
     (\<lambda>s. if s = py ''{}'' then Inr (JObj fmempty) else Inl (JSONDecodeError []))
     (py ''cours'') (\<lambda>f. Text (py '' ```json {} ``` '')) =
   Inr ([], Some (fmupd fragment_source (JStr (py ''cours'')) fmempty))"
proof -
  have a: "strip (py '' ```json {} ``` '') = fence_open @ py '' {} '' @ fence_close"
    by (simp add: strip_def py_def isspace_def fence_open_def fence_close_def)
  have b: "(\<lambda>s. if s = py ''{}'' then Inr (JObj fmempty) else Inl (JSONDecodeError []))
             (strip (py '' {} '')) = Inr (JObj fmempty)"
    by (simp add: strip_def py_def isspace_def)
  show ?thesis
    using fence_stripped [where raw = "py '' ```json {} ``` ''" and inner = "py '' {} ''"
        and gemini_model = "\<lambda>f. Text (py '' ```json {} ``` '')" and fragment = "py ''cours''"
        and loads = "\<lambda>s. if s = py ''{}'' then Inr (JObj fmempty) else Inl (JSONDecodeError [])"
        and qcm_data = fmempty, OF a _ b]
    by simp
qed

text \<open>
  C10. When the response parses as JSON but the value is not an object, the function
  does not take the \<open>JSONDecodeError\<close> handler: attaching \<open>fragment_source\<close> raises
  \<open>TypeError\<close>, the generic handler shows it as a generation error, and \<open>None\<close> is
  returned.
\<close>

theorem non_object_response:
  assumes "gemini_model fragment = Text raw"
    and "loads (qcm_json_string raw) = Inr v"
    and "\<not> is_dict v"
  shows "generate_qcm_with_gemini loads fragment gemini_model =
           Inr ([Error_generation TypeError], None)"
  using assms by (cases v) (simp_all add: generate_qcm_with_gemini_def)

theorem non_object_response_witness:
  "generate_qcm_with_gemini (\<lambda>s. Inr (JArr [JInt 1, JInt 2]))
     (py ''cours'') (\<lambda>f. Text (py ''[1, 2]'')) =
   Inr ([Error_generation TypeError], None)"
  using non_object_response [where gemini_model = "\<lambda>f. Text (py ''[1, 2]'')"
      and fragment = "py ''cours''" and raw = "py ''[1, 2]''"
      and loads = "\<lambda>s. Inr (JArr [JInt 1, JInt 2])" and v = "JArr [JInt 1, JInt 2]"]
  by simp

section \<open>Properties of the fragment selection\<close>

lemma selected_lines_length:
  assumes "randint 0 (length lines - chunk_size) \<le> length lines - chunk_size"
  shows "length (selected_lines randint lines) = min (length lines) chunk_size"
  using assms by (auto simp: selected_lines_def start_index_def Let_def)

lemma selected_lines_contiguous:
  "lines = take (start_index randint lines) lines @ selected_lines randint lines @
           drop (start_index randint lines + chunk_size) lines"
  unfolding selected_lines_def
  by (metis append_take_drop_id drop_drop add.commute)

text \<open>
  C3. With the window of 100 lines and a list of \<open>L\<close> lines, the start index is 0 when
  \<open>L \<le> 100\<close> and otherwise the value \<open>random.randint(0, L - 100)\<close> draws from that
  inclusive range; the selected lines are the slice of 100 lines from the start index,
  \<open>min(L, 100)\<close> lines in all, contiguous in the input (the whole list when \<open>L \<le> 100\<close>),
  and the fragment is these lines joined with a newline. The hypothesis is the contract
  of \<open>random.randint\<close> for the range the code asks for; that the draw is uniform over
  the range is the library's.
\<close>

theorem fragment_window:
  assumes "randint 0 (length lines - chunk_size) \<le> length lines - chunk_size"
  shows "chunk_size = 100 \<and>
         start_index randint lines =
           (if length lines \<le> chunk_size then 0 else randint 0 (length lines - chunk_size)) \<and>
         start_index randint lines \<le> length lines - chunk_size \<and>
         selected_lines randint lines = take chunk_size (drop (start_index randint lines) lines) \<and>
         length (selected_lines randint lines) = min (length lines) chunk_size \<and>
         lines = take (start_index randint lines) lines @ selected_lines randint lines @
                 drop (start_index randint lines + chunk_size) lines \<and>
         (if length lines \<le> chunk_size then selected_lines randint lines = lines
          else length (selected_lines randint lines) = chunk_size) \<and>
         selected_fragment randint lines = join [10] (selected_lines randint lines)"
proof -
  have a: "start_index randint lines =
           (if length lines \<le> chunk_size then 0 else randint 0 (length lines - chunk_size))"
    by (simp add: start_index_def Let_def)
  have b: "start_index randint lines \<le> length lines - chunk_size"
    using assms by (simp add: a)
  have c: "if length lines \<le> chunk_size then selected_lines randint lines = lines
           else length (selected_lines randint lines) = chunk_size"
    using selected_lines_length [of randint lines] assms by (simp add: selected_lines_def a)
  show ?thesis
    using a b c assms selected_lines_length [of randint lines]
      selected_lines_contiguous [of lines randint]
    by (simp add: chunk_size_def selected_lines_def selected_fragment_def)
qed

theorem fragment_window_witness:
  "start_index (\<lambda>a b. b) (replicate 250 (py ''ligne'')) = 150 \<and>
   length (selected_lines (\<lambda>a b. b) (replicate 250 (py ''ligne''))) = 100"
  using fragment_window [of "\<lambda>a b. b" "replicate 250 (py ''ligne'')"]
  by (simp add: chunk_size_def)

section \<open>Properties of the correction\<close>

lemma strs_of_map: "strs_of xs = Some ss \<Longrightarrow> xs = map JStr ss"
  by (induction xs arbitrary: ss rule: strs_of.induct) auto

lemma JStr_mem: "JStr k \<in> JStr ` A \<longleftrightarrow> k \<in> A"
  by auto

lemma texts_okD:
  "texts_ok d \<Longrightarrow> fmlookup d k = Some v \<Longrightarrow> utf8_ok k \<and> is_text v"
  by (auto simp: texts_ok_def dest: fmpredD)

lemma is_text_ok: "is_text v \<Longrightarrow> text_ok v"
  by (cases v) simp_all

lemma placeholder_ok: "utf8_ok placeholder"
  by (simp add: placeholder_def py_def utf8_ok_def is_surrogate_def)

lemma explanation_ok:
  "texts_ok explanations \<Longrightarrow>
   text_ok (case fmlookup explanations key of Some e \<Rightarrow> e | None \<Rightarrow> JStr placeholder)"
  by (auto simp: placeholder_ok split: option.split dest: texts_okD is_text_ok)

lemma correction_loop_dict:
  assumes "fmlookup qcm (py ''explanations'') = Some (JObj explanations)"
    and "texts_ok explanations"
    and "list_all (\<lambda>(key, val). utf8_ok key \<and> is_text val) items"
  shows "correction_loop qcm (map JStr correct) sel items =
           (map (block correct sel explanations) items, None)"
  using assms
proof (induction items)
  case Nil
  then show ?case by simp
next
  case (Cons kv items)
  obtain key val where kv: "kv = (key, val)"
    by (cases kv)
  have ok: "utf8_ok key" "text_ok val"
    using Cons.prems(3) kv by (simp_all add: is_text_ok)
  have rest: "correction_loop qcm (map JStr correct) sel items =
                (map (block correct sel explanations) items, None)"
    using Cons by simp
  show ?case
    using Cons.prems(1) ok explanation_ok [OF Cons.prems(2), of key]
    by (simp add: kv rest block_def JStr_mem Let_def)
qed

lemma loop_no_success:
  "Success_bravo \<notin> set (fst (correction_loop qcm correct_answers user_answers items))"
proof (induction items)
  case Nil
  then show ?case by simp
next
  case (Cons kv items)
  obtain key val where kv: "kv = (key, val)"
    by (cases kv)
  show ?case
  proof (cases "fmlookup qcm (py ''explanations'')")
    case None
    then show ?thesis by (simp add: kv)
  next
    case (Some explanations)
    then show ?thesis
      using Cons
      by (cases explanations;
          cases "correction_loop qcm correct_answers user_answers items")
         (simp_all add: kv Let_def)
  qed
qed

lemma overall_first:
  assumes "fmlookup qcm (py ''correct_answers'') = Some (JArr listed)"
    and "strs_of listed = Some correct"
    and "fmlookup qcm (py ''options'') = Some (JObj options)"
    and "fmlookup qcm (py ''explanations'') = Some (JObj explanations)"
  shows "fst (affichage_de_la_correction qcm sel) =
           (if sel = sort correct then Success_bravo else Error_incorrect) #
           fst (correction_loop qcm (map JStr (sort correct)) sel (sorted_list_of_fmap options))"
  using assms
  by (cases "correction_loop qcm (map JStr (sort correct)) sel (sorted_list_of_fmap options)")
     (simp add: affichage_de_la_correction_def inj_map_eq_map inj_on_def)

lemma correction_wf:
  assumes "fmlookup qcm (py ''correct_answers'') = Some (JArr listed)"
    and "strs_of listed = Some correct"
    and "fmlookup qcm (py ''options'') = Some (JObj options)"
    and "fmlookup qcm (py ''explanations'') = Some (JObj explanations)"
    and "texts_ok options"
    and "texts_ok explanations"
  shows "affichage_de_la_correction qcm sel =
           ((if sel = sort correct then Success_bravo else Error_incorrect) #
            map (block (sort correct) sel explanations) (sorted_list_of_fmap options), None)"
proof -
  have "correction_loop qcm (map JStr (sort correct)) sel (sorted_list_of_fmap options) =
          (map (block (sort correct) sel explanations) (sorted_list_of_fmap options), None)"
    using assms(4-6) by (intro correction_loop_dict) (simp_all add: texts_ok_def)
  then show ?thesis
    using assms(1-3)
    by (simp add: affichage_de_la_correction_def inj_map_eq_map inj_on_def)
qed

lemma verdicts_blocks:
  "verdicts (map (block correct sel explanations) items) =
     map (\<lambda>kv. (fst kv, status (fst kv \<in> set correct) (fst kv \<in> set sel))) items"
  by (induction items) (simp_all add: block_def)

lemma keys_sorted_list_of_fmap:
  "map fst (sorted_list_of_fmap m) = sorted_list_of_fset (fmdom m)"
  by (simp add: sorted_list_of_fmap_def comp_def)

lemma keys_fempty: "sorted_list_of_fset {||} = []"
  by (simp add: sorted_list_of_fset.rep_eq)

lemma keys_finsert:
  "sorted_list_of_fset (finsert k S) = insort k (remove1 k (sorted_list_of_fset S))"
  by (simp add: sorted_list_of_fset.rep_eq sorted_list_of_set_remove)

lemmas eval_fmap = sorted_list_of_fmap_def keys_fempty keys_finsert py_def

lemma keys_sorted: "sorted (sorted_list_of_fset S)" "distinct (sorted_list_of_fset S)"
  by (simp_all add: sorted_list_of_fset.rep_eq)

lemma verdict_keys:
  assumes "fmlookup qcm (py ''correct_answers'') = Some (JArr listed)"
    and "strs_of listed = Some correct"
    and "fmlookup qcm (py ''options'') = Some (JObj options)"
    and "fmlookup qcm (py ''explanations'') = Some (JObj explanations)"
    and "texts_ok options"
    and "texts_ok explanations"
  shows "verdicts (fst (affichage_de_la_correction qcm sel)) =
           map (\<lambda>k. (k, status (k \<in> set correct) (k \<in> set sel)))
             (sorted_list_of_fset (fmdom options))"
proof -
  have "verdicts (fst (affichage_de_la_correction qcm sel)) =
          verdicts (map (block (sort correct) sel explanations) (sorted_list_of_fmap options))"
    using assms by (simp add: correction_wf)
  also have "\<dots> = map (\<lambda>kv. (fst kv, status (fst kv \<in> set correct) (fst kv \<in> set sel)))
                    (sorted_list_of_fmap options)"
    by (simp add: verdicts_blocks)
  also have "\<dots> = map (\<lambda>k. (k, status (k \<in> set correct) (k \<in> set sel)))
                    (sorted_list_of_fset (fmdom options))"
    by (simp add: sorted_list_of_fmap_def comp_def)
  finally show ?thesis .
qed

text \<open>
  C1, as amended. For an MCQ whose \<open>correct_answers\<close> is a list of strings and whose
  \<open>options\<close> and \<open>explanations\<close> are objects of texts that can be shown (strings
  with no lone surrogate, the keys too), and for every selection, the correction shows
  one status for each option key, in sorted key order, following the
  truth table (correct and selected: CorrectChosen; correct and not selected:
  CorrectMissed; not correct and selected: IncorrectChosen; neither: IncorrectAvoided).
  The keys shown CorrectChosen or CorrectMissed are the \<open>correct_answers\<close> keys that
  are options; they are all of \<open>correct_answers\<close> exactly when every correct key is
  an option, which the code does not check. The keys shown IncorrectChosen or
  IncorrectAvoided are the other option keys.
\<close>

theorem grading_partition:
  assumes "fmlookup qcm (py ''correct_answers'') = Some (JArr listed)"
    and "strs_of listed = Some correct"
    and "fmlookup qcm (py ''options'') = Some (JObj options)"
    and "fmlookup qcm (py ''explanations'') = Some (JObj explanations)"
    and "texts_ok options"
    and "texts_ok explanations"
    and "out = fst (affichage_de_la_correction qcm sel)"
  shows "map fst (verdicts out) = sorted_list_of_fset (fmdom options) \<and>
         distinct (map fst (verdicts out)) \<and>
         (\<forall>(key, v) \<in> set (verdicts out).
            v = (if key \<in> set correct
                 then (if key \<in> set sel then CorrectChosen else CorrectMissed)
                 else (if key \<in> set sel then IncorrectChosen else IncorrectAvoided))) \<and>
         graded out CorrectChosen \<union> graded out CorrectMissed =
           set correct \<inter> fset (fmdom options) \<and>
         graded out IncorrectChosen \<union> graded out IncorrectAvoided =
           fset (fmdom options) - set correct \<and>
         (graded out CorrectChosen \<union> graded out CorrectMissed = set correct
            \<longleftrightarrow> set correct \<subseteq> fset (fmdom options))"
proof -
  have v: "verdicts out = map (\<lambda>k. (k, status (k \<in> set correct) (k \<in> set sel)))
             (sorted_list_of_fset (fmdom options))"
    using assms by (simp add: verdict_keys)
  have a: "map fst (verdicts out) = sorted_list_of_fset (fmdom options)"
    by (simp add: v comp_def)
  have g: "graded out w = {k. k |\<in>| fmdom options \<and> status (k \<in> set correct) (k \<in> set sel) = w}"
    for w by (auto simp: graded_def v)
  have c: "graded out CorrectChosen \<union> graded out CorrectMissed =
             set correct \<inter> fset (fmdom options)"
    by (auto simp: g status_def split: if_splits)
  have i: "graded out IncorrectChosen \<union> graded out IncorrectAvoided =
             fset (fmdom options) - set correct"
    by (auto simp: g status_def split: if_splits)
  have t: "\<forall>(key, v) \<in> set (verdicts out).
            v = (if key \<in> set correct
                 then (if key \<in> set sel then CorrectChosen else CorrectMissed)
                 else (if key \<in> set sel then IncorrectChosen else IncorrectAvoided))"
    by (auto simp: v status_def)
  show ?thesis
    using a c i t by (auto simp: keys_sorted)
qed


lemma options_AB_items:
  "sorted_list_of_fmap options_AB = [(py ''A'', JStr (py ''un'')), (py ''B'', JStr (py ''deux''))]"
  by (simp add: options_AB_def eval_fmap)

lemma options_AB_keys: "sorted_list_of_fset (fmdom options_AB) = [py ''A'', py ''B'']"
  by (simp add: options_AB_def eval_fmap)

lemma example_texts:
  "texts_ok options_AB"
  "texts_ok fmempty"
  "texts_ok (fmap_of_list [(py ''A'', JStr (py ''parce que''))])"
  by (simp_all add: texts_ok_def options_AB_def eval_fmap utf8_ok_def is_surrogate_def
      del: list_all_sorted_list)

text \<open>
  A text that cannot be encoded stops the correction at its option, after the overall
  message: the conditions on the texts in the properties below are needed.
\<close>

lemma qcm_surrogate_correction:
  "affichage_de_la_correction qcm_surrogate [py ''A''] =
     ([Success_bravo], Some UnicodeEncodeError)"
  by (simp add: affichage_de_la_correction_def qcm_surrogate_def fragment_source_def
      options_AB_def eval_fmap utf8_ok_def is_surrogate_def)

lemma qcm_phantom_fields:
  "fmlookup qcm_phantom (py ''correct_answers'') = Some (JArr [JStr (py ''A''), JStr (py ''Z'')])"
  "fmlookup qcm_phantom (py ''options'') = Some (JObj options_AB)"
  "fmlookup qcm_phantom (py ''explanations'') = Some (JObj fmempty)"
  by (simp_all add: qcm_phantom_def fragment_source_def py_def)

lemma qcm_phantom_verdicts:
  "verdicts (fst (affichage_de_la_correction qcm_phantom sel)) =
     [(py ''A'', status True (py ''A'' \<in> set sel)), (py ''B'', status False (py ''B'' \<in> set sel))]"
proof -
  have "strs_of [JStr (py ''A''), JStr (py ''Z'')] = Some [py ''A'', py ''Z'']"
    by simp
  from verdict_keys [OF qcm_phantom_fields(1) this qcm_phantom_fields(2,3) example_texts(1,2)]
  show ?thesis
    by (simp add: options_AB_keys) (simp add: py_def)
qed

text \<open>
  C1 as stated fails: with options A and B and \<open>correct_answers = ["A", "Z"]\<close> the
  correction completes, and Z, a \<open>correct_answers\<close> key, is shown neither
  CorrectChosen nor CorrectMissed.
\<close>

theorem grading_partition_counterexample:
  "fmlookup qcm_phantom (py ''correct_answers'') = Some (JArr [JStr (py ''A''), JStr (py ''Z'')]) \<and>
   verdicts (fst (affichage_de_la_correction qcm_phantom [])) =
     [(py ''A'', CorrectMissed), (py ''B'', IncorrectAvoided)] \<and>
   py ''Z'' \<notin> graded (fst (affichage_de_la_correction qcm_phantom [])) CorrectChosen \<union>
                graded (fst (affichage_de_la_correction qcm_phantom [])) CorrectMissed"
  by (simp add: qcm_phantom_fields qcm_phantom_verdicts graded_def status_def) (simp add: py_def)

theorem grading_partition_witness:
  "map fst (verdicts (fst (affichage_de_la_correction qcm_phantom [py ''A'']))) =
     sorted_list_of_fset (fmdom options_AB) \<and>
   graded (fst (affichage_de_la_correction qcm_phantom [py ''A''])) CorrectChosen \<union>
   graded (fst (affichage_de_la_correction qcm_phantom [py ''A''])) CorrectMissed =
     set [py ''A'', py ''Z''] \<inter> fset (fmdom options_AB)"
proof -
  have s: "strs_of [JStr (py ''A''), JStr (py ''Z'')] = Some [py ''A'', py ''Z'']"
    by simp
  from grading_partition
    [OF qcm_phantom_fields(1) s qcm_phantom_fields(2,3) example_texts(1,2) refl, of "[py ''A'']"]
  show ?thesis
    by (elim conjE) (intro conjI; assumption)
qed


lemma correction_keeps_state: "snd (snd (correction st)) = st"
  by (simp add: correction_def split: option.split prod.split)


lemma qcm_ok_fields:
  "fmlookup qcm_ok (py ''correct_answers'') = Some (JArr [JStr (py ''A'')])"
  "fmlookup qcm_ok (py ''options'') = Some (JObj options_AB)"
  "fmlookup qcm_ok (py ''explanations'') =
     Some (JObj (fmap_of_list [(py ''A'', JStr (py ''parce que''))]))"
  by (simp_all add: qcm_ok_def fragment_source_def py_def)


lemma sort_eq_iff:
  assumes "sorted xs" "distinct xs"
  shows "xs = sort ys \<longleftrightarrow> distinct ys \<and> set xs = set ys"
proof
  assume "xs = sort ys"
  then show "distinct ys \<and> set xs = set ys"
    using assms by (metis distinct_sort set_sort)
next
  assume "distinct ys \<and> set xs = set ys"
  then show "xs = sort ys"
    using assms by (metis sorted_distinct_set_unique distinct_sort set_sort sorted_sort)
qed

lemma is_fully_correct_wf:
  assumes "fmlookup qcm (py ''correct_answers'') = Some (JArr listed)"
    and "strs_of listed = Some correct"
    and "fmlookup qcm (py ''options'') = Some (JObj options)"
    and "fmlookup qcm (py ''explanations'') = Some (JObj explanations)"
  shows "is_fully_correct (fst (affichage_de_la_correction qcm sel)) \<longleftrightarrow> sel = sort correct"
  using loop_no_success
      [of qcm "map JStr (sort correct)" sel "sorted_list_of_fmap options"]
  by (simp add: overall_first [OF assms] is_fully_correct_def)

text \<open>
  C2, as amended. The selection that the form submits is the list of ticked option keys,
  sorted and without repetition. The overall message is the success one exactly when
  that list equals the sorted \<open>correct_answers\<close> list, that is, when the selection
  set equals the \<open>correct_answers\<close> set and \<open>correct_answers\<close> lists no key twice.
  A strict subset or superset of the correct keys is therefore never a success.
\<close>

theorem exact_match:
  assumes "fmlookup qcm (py ''correct_answers'') = Some (JArr listed)"
    and "strs_of listed = Some correct"
    and "fmlookup qcm (py ''options'') = Some (JObj options)"
    and "fmlookup qcm (py ''explanations'') = Some (JObj explanations)"
    and "user_choices = filter checkbox (map fst (sorted_list_of_fmap options))"
    and "st' = snd (snd (valider_ma_reponse user_choices st))"
  shows "user_selection st' = user_choices \<and>
         set (user_selection st') = {key. key |\<in>| fmdom options \<and> checkbox key} \<and>
         (is_fully_correct (fst (affichage_de_la_correction qcm (user_selection st')))
            \<longleftrightarrow> distinct correct \<and> set (user_selection st') = set correct)"
proof -
  have k: "map fst (sorted_list_of_fmap options) = sorted_list_of_fset (fmdom options)"
    by (simp add: sorted_list_of_fmap_def comp_def)
  have sd: "sorted user_choices" "distinct user_choices"
    using assms(5) by (simp_all add: k keys_sorted sorted_filter [where f = "\<lambda>x. x", simplified])
  have u: "user_selection st' = user_choices"
    using assms(6) sd by (simp add: valider_ma_reponse_def sorted_sort_id)
  have m: "set user_choices = {key. key |\<in>| fmdom options \<and> checkbox key}"
    using assms(5) by (auto simp: k)
  show ?thesis
    using u m sd is_fully_correct_wf [OF assms(1-4), of user_choices]
      sort_eq_iff [of user_choices correct]
    by simp
qed

theorem exact_match_witness:
  "user_selection (snd (snd (valider_ma_reponse
      (filter (\<lambda>key. key = py ''A'') (map fst (sorted_list_of_fmap options_AB))) init_state))) =
     [py ''A''] \<and>
   is_fully_correct (fst (affichage_de_la_correction qcm_ok [py ''A'']))"
proof -
  have s: "strs_of [JStr (py ''A'')] = Some [py ''A'']"
    by simp
  have f: "filter (\<lambda>key. key = py ''A'') (map fst (sorted_list_of_fmap options_AB)) = [py ''A'']"
    by (simp add: options_AB_items) (simp add: py_def)
  have u: "user_selection (snd (snd (valider_ma_reponse [py ''A''] init_state))) = [py ''A'']"
    by (simp add: valider_ma_reponse_def)
  have "is_fully_correct (fst (affichage_de_la_correction qcm_ok [py ''A''])) \<longleftrightarrow>
          distinct [py ''A''] \<and> set [py ''A''] = set [py ''A'']"
    using exact_match [OF qcm_ok_fields(1) s qcm_ok_fields(2,3) refl refl,
        of "\<lambda>key. key = py ''A''" init_state]
    unfolding f u by (rule conjunct2 [OF conjunct2])
  then show ?thesis
    by (simp add: f u)
qed

text \<open>
  C2 as stated fails: with \<open>correct_answers = ["A", "A"]\<close> and A ticked, the submitted
  selection is \<open>["A"]\<close>, the same set as \<open>correct_answers\<close>, and the overall
  message is the failure one.
\<close>

theorem exact_match_counterexample:
  "fmlookup qcm_repeated (py ''correct_answers'') = Some (JArr [JStr (py ''A''), JStr (py ''A'')]) \<and>
   user_selection (snd (snd (valider_ma_reponse
      (filter (\<lambda>key. key = py ''A'') (map fst (sorted_list_of_fmap options_AB))) init_state))) =
     [py ''A''] \<and>
   set [py ''A''] = set [py ''A'', py ''A''] \<and>
   fst (affichage_de_la_correction qcm_repeated [py ''A'']) =
     [Error_incorrect,
      Option_block (py ''A'') CorrectChosen (JStr (py ''un'')) (JStr placeholder),
      Option_block (py ''B'') IncorrectAvoided (JStr (py ''deux'')) (JStr placeholder)]"
proof -
  have a: "fmlookup qcm_repeated (py ''correct_answers'') =
             Some (JArr [JStr (py ''A''), JStr (py ''A'')])"
    "fmlookup qcm_repeated (py ''options'') = Some (JObj options_AB)"
    "fmlookup qcm_repeated (py ''explanations'') = Some (JObj fmempty)"
    by (simp_all add: qcm_repeated_def fragment_source_def py_def)
  have s: "strs_of [JStr (py ''A''), JStr (py ''A'')] = Some [py ''A'', py ''A'']"
    by simp
  have f: "filter (\<lambda>key. key = py ''A'') (map fst (sorted_list_of_fmap options_AB)) = [py ''A'']"
    by (simp add: options_AB_items) (simp add: py_def)
  have c: "fst (affichage_de_la_correction qcm_repeated [py ''A'']) =
     [Error_incorrect,
      Option_block (py ''A'') CorrectChosen (JStr (py ''un'')) (JStr placeholder),
      Option_block (py ''B'') IncorrectAvoided (JStr (py ''deux'')) (JStr placeholder)]"
    by (simp add: correction_wf [OF a(1) s a(2,3) example_texts(1,2)] options_AB_items
          block_def status_def)
       (simp add: py_def)
  show ?thesis
    using a(1) c by (simp add: f valider_ma_reponse_def init_state_def)
qed

section \<open>Properties of the session state and of missing fields\<close>

text \<open>
  C6, as amended. When "Analyser le cours" is clicked with a text that is empty once
  trimmed, a warning is shown and \<open>course_lines\<close> becomes the empty list; the rest
  of the session state, \<open>current_qcm\<close> included, is left as it was.
\<close>

theorem empty_course_text:
  assumes "course_text_of file text_area = Inr course_text"
    and "strip course_text = []"
  shows "analyser_le_cours file text_area st =
           ([Warning_no_text], None, st\<lparr>course_lines := []\<rparr>) \<and>
         course_lines (snd (snd (analyser_le_cours file text_area st))) = [] \<and>
         current_qcm (snd (snd (analyser_le_cours file text_area st))) = current_qcm st \<and>
         show_correction (snd (snd (analyser_le_cours file text_area st))) = show_correction st \<and>
         user_selection (snd (snd (analyser_le_cours file text_area st))) = user_selection st"
  using assms by (simp add: analyser_le_cours_def)

theorem empty_course_text_witness:
  "analyser_le_cours No_file (py ''  '') init_state =
     ([Warning_no_text], None, init_state\<lparr>course_lines := []\<rparr>)"
proof -
  have a: "course_text_of No_file (py ''  '') = Inr (py ''  '')"
    by (simp add: py_def)
  have b: "strip (py ''  '') = []"
    by (simp add: strip_def py_def isspace_def)
  from empty_course_text [OF a b, of init_state] show ?thesis
    by (rule conjunct1)
qed

text \<open>
  C6 as stated fails: with a question on the page, analysing an empty text leaves
  \<open>current_qcm\<close> set to that question.
\<close>

theorem empty_course_text_counterexample:
  "strip [] = [] \<and>
   analyser_le_cours No_file [] st_shown =
     ([Warning_no_text], None, st_shown\<lparr>course_lines := []\<rparr>) \<and>
   current_qcm (st_shown\<lparr>course_lines := []\<rparr>) = Some qcm_ok"
  by (simp add: analyser_le_cours_def strip_def st_shown_def)

lemma field_names_distinct:
  "fragment_source \<noteq> py ''question''" "py ''question'' \<noteq> fragment_source"
  "fragment_source \<noteq> py ''options''" "py ''options'' \<noteq> fragment_source"
  "py ''question'' \<noteq> py ''options''" "py ''options'' \<noteq> py ''question''"
  by (simp_all add: fragment_source_def py_def)

text \<open>
  C7, as amended. For an MCQ whose \<open>correct_answers\<close> is a list of strings and whose
  \<open>options\<close> and \<open>explanations\<close> are objects of texts that can be shown (strings
  with no lone surrogate, the keys too), an option key that has no entry in
  \<open>explanations\<close> is shown with the placeholder "Pas d'explication fournie." and the
  correction completes. A missing top-level field is not handled: for every MCQ whose
  fragment and question are texts that can be shown, showing it without its
  \<open>question\<close> or without its \<open>options\<close> raises \<open>KeyError\<close>, and for every MCQ so
  does the correction without \<open>correct_answers\<close>.
\<close>

theorem missing_keys:
  assumes "fmlookup qcm (py ''correct_answers'') = Some (JArr listed)"
    and "strs_of listed = Some correct"
    and "fmlookup qcm (py ''options'') = Some (JObj options)"
    and "fmlookup qcm (py ''explanations'') = Some (JObj explanations)"
    and "texts_ok options"
    and "texts_ok explanations"
    and "fmlookup options key = Some val"
    and "fmlookup explanations key = None"
    and "utf8_ok f"
    and "utf8_ok t"
  shows "snd (affichage_de_la_correction qcm sel) = None \<and>
         Option_block key (status (key \<in> set correct) (key \<in> set sel)) val (JStr placeholder)
           \<in> set (fst (affichage_de_la_correction qcm sel)) \<and>
         affichage_du_qcm checkbox st (fmdrop (py ''question'') (fmupd fragment_source (JStr f) q)) =
           ([Info_fragment (JStr f)], Some (KeyError (py ''question'')), []) \<and>
         affichage_du_qcm checkbox st
             (fmdrop (py ''options'')
                (fmupd (py ''question'') (JStr t) (fmupd fragment_source (JStr f) q))) =
           ([Info_fragment (JStr f), Subheader_question (JStr t)],
            Some (KeyError (py ''options'')), []) \<and>
         affichage_de_la_correction (fmdrop (py ''correct_answers'') q) sel =
           ([], Some (KeyError (py ''correct_answers'')))"
proof -
  have k: "(key, val) \<in> set (sorted_list_of_fmap options)"
    using assms(7) by (auto simp: sorted_list_of_fmap_def image_iff fmlookup_dom_iff)
  have b: "block (sort correct) sel explanations (key, val) =
             Option_block key (status (key \<in> set correct) (key \<in> set sel)) val (JStr placeholder)"
    using assms(8) by (simp add: block_def)
  have a: "Option_block key (status (key \<in> set correct) (key \<in> set sel)) val (JStr placeholder)
             \<in> set (fst (affichage_de_la_correction qcm sel))"
    using k b by (simp add: correction_wf [OF assms(1-6)]) force
  have c: "snd (affichage_de_la_correction qcm sel) = None"
    by (simp add: correction_wf [OF assms(1-6)])
  have d: "affichage_du_qcm checkbox st
             (fmdrop (py ''question'') (fmupd fragment_source (JStr f) q)) =
           ([Info_fragment (JStr f)], Some (KeyError (py ''question'')), [])"
    using assms(9) by (simp add: affichage_du_qcm_def field_names_distinct)
  have e: "affichage_du_qcm checkbox st
             (fmdrop (py ''options'')
                (fmupd (py ''question'') (JStr t) (fmupd fragment_source (JStr f) q))) =
           ([Info_fragment (JStr f), Subheader_question (JStr t)],
            Some (KeyError (py ''options'')), [])"
    using assms(9,10) by (simp add: affichage_du_qcm_def field_names_distinct)
  have g: "affichage_de_la_correction (fmdrop (py ''correct_answers'') q) sel =
           ([], Some (KeyError (py ''correct_answers'')))"
    by (simp add: affichage_de_la_correction_def)
  show ?thesis
    using a c d e g by simp
qed

theorem missing_keys_witness:
  "snd (affichage_de_la_correction qcm_ok [py ''A'']) = None \<and>
   Option_block (py ''B'') (status (py ''B'' \<in> set [py ''A'']) (py ''B'' \<in> set [py ''A'']))
       (JStr (py ''deux'')) (JStr placeholder)
     \<in> set (fst (affichage_de_la_correction qcm_ok [py ''A'']))"
proof -
  have s: "strs_of [JStr (py ''A'')] = Some [py ''A'']"
    by simp
  have o: "fmlookup options_AB (py ''B'') = Some (JStr (py ''deux''))"
    by (simp add: options_AB_def py_def)
  have x: "fmlookup (fmap_of_list [(py ''A'', JStr (py ''parce que''))]) (py ''B'') = None"
    by (simp add: py_def)
  have u: "utf8_ok (py ''cours'')" "utf8_ok (py ''Combien ?'')"
    by (simp_all add: utf8_ok_def is_surrogate_def py_def)
  from missing_keys [OF qcm_ok_fields(1) s qcm_ok_fields(2,3) example_texts(1,3) o x u,
      where sel = "[py ''A'']" and checkbox = "\<lambda>key. False" and st = init_state
        and q = fmempty]
  show ?thesis
    by (elim conjE) (intro conjI; assumption)
qed

text \<open>
  C7 as stated fails: showing an MCQ that has no \<open>question\<close> raises \<open>KeyError\<close>
  after the fragment has been shown.
\<close>

theorem missing_keys_counterexample:
  "fmlookup qcm_no_question (py ''question'') = None \<and>
   affichage_du_qcm (\<lambda>key. False) init_state qcm_no_question =
     ([Info_fragment (JStr (py ''cours''))], Some (KeyError (py ''question'')), [])"
  by (simp add: affichage_du_qcm_def qcm_no_question_def field_names_distinct utf8_ok_def
        is_surrogate_def)
     (simp add: fragment_source_def py_def)

section \<open>Properties of a run of the script\<close>

lemma state_of_triple [simp]: "state_of (out, x, st) = st"
  by (simp add: state_of_def)

lemma state_and_then_None: "state_of (and_then (out, None, st) f) = state_of (f st)"
  by (cases "f st") (simp add: and_then_def)

lemma state_and_then_Some: "state_of (and_then (out, Some x, st) f) = st"
  by (simp add: and_then_def)

lemma state_and_then_cases:
  "state_of (and_then r f) = state_of r \<or> state_of (and_then r f) = state_of (f (state_of r))"
proof (cases r)
  case (fields out x st)
  then show ?thesis
    by (cases x) (simp_all add: state_and_then_None state_and_then_Some)
qed

lemma state_analyser:
  "show_correction (state_of (analyser_le_cours file text_area st)) \<Longrightarrow> show_correction st"
proof (cases "course_text_of file text_area")
  case (Inl x)
  assume "show_correction (state_of (analyser_le_cours file text_area st))"
  with Inl show ?thesis by (simp add: analyser_le_cours_def)
next
  case (Inr t)
  assume "show_correction (state_of (analyser_le_cours file text_area st))"
  with Inr show ?thesis
    by (simp add: analyser_le_cours_def Let_def split: if_splits)
qed

lemma state_generer:
  "show_correction (state_of (generer_un_nouveau_qcm loads m randint st)) = False \<and>
   user_selection (state_of (generer_un_nouveau_qcm loads m randint st)) = []"
proof (cases "course_lines st = []")
  case True
  then show ?thesis by (simp add: generer_un_nouveau_qcm_def Let_def)
next
  case False
  then show ?thesis
    by (cases "generate_qcm_with_gemini loads (selected_fragment randint (course_lines st)) m")
       (auto simp: generer_un_nouveau_qcm_def Let_def)
qed

lemma state_sidebar:
  "show_correction (state_of (sidebar e c st)) \<Longrightarrow> show_correction st"
  by (cases "c = Analyser") (auto simp: sidebar_def dest: state_analyser)

lemma state_logique:
  "show_correction (state_of (logique_principale e c st)) \<Longrightarrow> show_correction st"
proof -
  assume a: "show_correction (state_of (logique_principale e c st))"
  obtain out gm where g: "configure e = (out, gm)"
    by (cases "configure e")
  show ?thesis
  proof (cases gm)
    case None
    with a g show ?thesis
      by (simp add: logique_principale_def state_and_then_None split: if_splits)
  next
    case (Some m)
    with a g show ?thesis
      using state_generer [of "json_loads e" m "random_randint e" st]
      by (simp add: logique_principale_def state_and_then_None split: if_splits)
  qed
qed


lemma state_formulaire:
  "show_correction (state_of (formulaire e c st)) \<Longrightarrow>
   show_correction st \<or>
   (c = Valider \<and> truthy (current_qcm st) \<and>
    current_qcm (state_of (formulaire e c st)) = current_qcm st)"
proof -
  assume a: "show_correction (state_of (formulaire e c st))"
  show ?thesis
  proof (cases "current_qcm st")
    case None
    with a show ?thesis by (simp add: formulaire_def)
  next
    case (Some qcm)
    obtain out x user_choices where
      r: "affichage_du_qcm (checkbox_state e) st qcm = (out, x, user_choices)"
      by (cases "affichage_du_qcm (checkbox_state e) st qcm")
    show ?thesis
    proof (cases "truthy (Some qcm) \<and> x = None \<and> c = Valider")
      case True
      with Some r show ?thesis
        by (simp add: formulaire_def state_and_then_None valider_ma_reponse_def)
    next
      case False
      with a Some r have "show_correction st"
        by (cases x) (auto simp: formulaire_def split: if_splits)
      then show ?thesis by simp
    qed
  qed
qed

lemma state_correction: "state_of (correction st) = st"
  by (simp add: state_of_def correction_keeps_state)

lemma state_unclicked:
  "c \<noteq> Analyser \<Longrightarrow> state_of (sidebar e c st) = st"
  "c \<noteq> Valider \<Longrightarrow> state_of (formulaire e c st) = st"
proof -
  show "c \<noteq> Analyser \<Longrightarrow> state_of (sidebar e c st) = st"
    by (simp add: sidebar_def)
  show "c \<noteq> Valider \<Longrightarrow> state_of (formulaire e c st) = st"
  proof (cases "current_qcm st")
    case None
    then show ?thesis by (simp add: formulaire_def)
  next
    case (Some qcm)
    assume "c \<noteq> Valider"
    with Some show ?thesis
      by (cases "affichage_du_qcm (checkbox_state e) st qcm"; cases "fst (snd (affichage_du_qcm (checkbox_state e) st qcm))")
         (auto simp: formulaire_def)
  qed
qed

lemma state_logique_unclicked: "c \<noteq> Generer \<Longrightarrow> state_of (logique_principale e c st) = st"
proof -
  assume a: "c \<noteq> Generer"
  obtain out gm where g: "configure e = (out, gm)"
    by (cases "configure e")
  from a g show ?thesis
    by (cases gm) (simp_all add: logique_principale_def state_and_then_None)
qed

lemma state_script_once:
  "state_of (script_once e c st) = state_of (sidebar e c st) \<or>
   state_of (script_once e c st) = state_of (logique_principale e c (state_of (sidebar e c st))) \<or>
   state_of (script_once e c st) =
     state_of (formulaire e c (state_of (logique_principale e c (state_of (sidebar e c st)))))"
proof -
  let ?r1 = "sidebar e c st"
  let ?r2 = "and_then ?r1 (logique_principale e c)"
  let ?r3 = "and_then ?r2 (formulaire e c)"
  have 2: "state_of ?r2 = state_of ?r1 \<or>
           state_of ?r2 = state_of (logique_principale e c (state_of ?r1))"
    by (rule state_and_then_cases)
  have 3: "state_of ?r3 = state_of ?r2 \<or> state_of ?r3 = state_of (formulaire e c (state_of ?r2))"
    by (rule state_and_then_cases)
  have 4: "state_of (script_once e c st) = state_of ?r3"
    using state_and_then_cases [of ?r3 correction]
    by (simp add: script_once_def state_correction)
  have skip: "state_of (formulaire e c (state_of ?r1)) = state_of ?r1 \<or>
              state_of (logique_principale e c (state_of ?r1)) = state_of ?r1"
    using state_unclicked(2) [of c e "state_of ?r1"] state_logique_unclicked [of c e "state_of ?r1"]
    by (cases "c = Valider") simp_all
  show ?thesis
    using 2 3 4 skip by metis
qed

lemma state_script_once_no_click: "state_of (script_once e No_click st) = st"
  using state_script_once [of e No_click st]
  by (simp add: state_unclicked state_logique_unclicked)

lemma state_script: "state_of (script e c st) = state_of (script_once e c st)"
proof (cases "script_once e c st")
  case (fields out x st')
  show ?thesis
  proof (cases "x = Some RerunException")
    case True
    with fields show ?thesis
      by (simp add: script_def state_script_once_no_click)
  next
    case False
    with fields show ?thesis
      by (cases x) (auto simp: script_def split: exn.splits)
  qed
qed


lemma flag_script_once:
  assumes "show_correction (state_of (script_once e c st))"
  shows "show_correction st \<or>
         (c = Valider \<and> truthy (current_qcm (state_of (script_once e c st))))"
proof -
  let ?s1 = "state_of (sidebar e c st)"
  let ?s2 = "state_of (logique_principale e c ?s1)"
  let ?s3 = "state_of (formulaire e c ?s2)"
  have one: "show_correction ?s1 \<Longrightarrow> show_correction st"
    by (rule state_sidebar)
  have two: "show_correction ?s2 \<Longrightarrow> show_correction st"
    using one state_logique [of e c ?s1] by blast
  have three: "show_correction ?s3 \<Longrightarrow>
               show_correction st \<or> (c = Valider \<and> truthy (current_qcm ?s3))"
    using two state_formulaire [of e c ?s2] by auto
  from state_script_once [of e c st] assms show ?thesis
    using one two three by (elim disjE) simp_all
qed

lemma logique_unclicked:
  assumes "c \<noteq> Generer"
  shows "\<exists>out. logique_principale e c st = (out, None, st)"
proof -
  obtain out gm where g: "configure e = (out, gm)"
    by (cases "configure e")
  from assms g show ?thesis
    by (cases gm) (simp_all add: logique_principale_def and_then_def)
qed

lemma state_script_valider:
  assumes "current_qcm st = Some qcm"
    and "truthy (Some qcm)"
    and "affichage_du_qcm (checkbox_state e) st qcm = (out, None, user_choices)"
  shows "state_of (script e Valider st) =
           st\<lparr>user_selection := sort user_choices, show_correction := True\<rparr>"
proof -
  obtain out2 where l: "logique_principale e Valider st = (out2, None, st)"
    using logique_unclicked [of Valider e st] by auto
  have f: "formulaire e Valider st =
             (out, Some RerunException,
              st\<lparr>user_selection := sort user_choices, show_correction := True\<rparr>)"
    using assms by (simp add: formulaire_def and_then_def valider_ma_reponse_def)
  have "script_once e Valider st =
          (out2 @ out, Some RerunException,
           st\<lparr>user_selection := sort user_choices, show_correction := True\<rparr>)"
    by (simp add: script_once_def sidebar_def and_then_def l f)
  then show ?thesis
    by (simp add: state_script)
qed

lemma state_script_generer:
  assumes "configure e = (out, Some m)"
    and "course_lines st \<noteq> []"
  shows "state_of (script e Generer st) =
           state_of (generer_un_nouveau_qcm (json_loads e) m (random_randint e) st)"
proof -
  let ?g = "generer_un_nouveau_qcm (json_loads e) m (random_randint e) st"
  let ?r2 = "and_then (sidebar e Generer st) (logique_principale e Generer)"
  let ?r3 = "and_then ?r2 (formulaire e Generer)"
  have l: "state_of (logique_principale e Generer st) = state_of ?g"
    using assms by (simp add: logique_principale_def state_and_then_None)
  have 2: "state_of ?r2 = state_of ?g"
    by (simp add: sidebar_def state_and_then_None l)
  have 3: "state_of ?r3 = state_of ?g"
    using state_and_then_cases [of ?r2 "formulaire e Generer"]
    by (auto simp: 2 state_unclicked)
  have "state_of (script_once e Generer st) = state_of ?g"
    using state_and_then_cases [of ?r3 correction]
    by (auto simp: script_once_def 3 state_correction)
  then show ?thesis
    by (simp add: state_script)
qed

text \<open>
  C8. "Generer un nouveau QCM" sets \<open>show_correction\<close> to false and
  \<open>user_selection\<close> to the empty list before it selects a fragment and calls the
  model, so they are reset whatever the generation gives, also when an exception leaves
  it; the same holds for the whole run of the script in which the button is clicked.
  \<open>show_correction\<close> is false in the initial session state, and in any run of the
  script it is true afterwards only if it was true before or the run is the one of
  "Valider ma reponse" with a question on the page.
\<close>

theorem correction_flag:
  "show_correction init_state = False \<and>
   show_correction (state_of (generer_un_nouveau_qcm loads m randint st0)) = False \<and>
   user_selection (state_of (generer_un_nouveau_qcm loads m randint st0)) = [] \<and>
   (configure e = (out, Some gm) \<and> course_lines st \<noteq> [] \<longrightarrow>
      show_correction (state_of (script e Generer st)) = False \<and>
      user_selection (state_of (script e Generer st)) = []) \<and>
   (show_correction (state_of (script e c st)) \<longrightarrow>
      show_correction st \<or> (c = Valider \<and> truthy (current_qcm (state_of (script e c st)))))"
proof -
  have a: "show_correction (state_of (script e c st)) \<longrightarrow>
      show_correction st \<or> (c = Valider \<and> truthy (current_qcm (state_of (script e c st))))"
    using flag_script_once [of e c st] by (simp add: state_script)
  have b: "configure e = (out, Some gm) \<and> course_lines st \<noteq> [] \<longrightarrow>
      show_correction (state_of (script e Generer st)) = False \<and>
      user_selection (state_of (script e Generer st)) = []"
    using state_generer [of "json_loads e" gm "random_randint e" st]
    by (simp add: state_script_generer)
  show ?thesis
    using a b state_generer [of loads m randint st0] by (simp add: init_state_def)
qed

theorem correction_flag_witness:
  "\<not> show_correction st_asked \<and>
   show_correction (state_of (script env_tick_A Valider st_asked)) \<and>
   truthy (current_qcm (state_of (script env_tick_A Valider st_asked)))"
proof -
  have q: "current_qcm st_asked = Some qcm_ok"
    by (simp add: st_asked_def)
  have t: "truthy (Some qcm_ok)"
    by (simp add: truthy_def qcm_ok_def)
  have l: "fmlookup qcm_ok fragment_source = Some (JStr (py ''cours''))"
    "fmlookup qcm_ok (py ''question'') = Some (JStr (py ''Combien ?''))"
    by (simp_all add: qcm_ok_def field_names_distinct)
  have u: "utf8_ok (py ''cours'')" "utf8_ok (py ''Combien ?'')" "utf8_ok (py ''A'')"
    "utf8_ok (py ''B'')" "utf8_ok (py ''un'')" "utf8_ok (py ''deux'')"
    by (simp_all add: utf8_ok_def is_surrogate_def py_def)
  obtain out user_choices where
    r: "affichage_du_qcm (checkbox_state env_tick_A) st_asked qcm_ok = (out, None, user_choices)"
    by (simp add: affichage_du_qcm_def l qcm_ok_fields options_AB_items u)
  have s: "show_correction (state_of (script env_tick_A Valider st_asked))"
    by (simp add: state_script_valider [OF q t r])
  have n: "\<not> show_correction st_asked"
    by (simp add: st_asked_def)
  from correction_flag [of _ _ _ st_asked env_tick_A _ _ st_asked Valider] s n
  show ?thesis
    by simp
qed

end
